theory Spec2Isabelle
  imports Complex_Main "HOL-Library.AList" "HOL-Library.Sublist" "HOL-Library.Code_Target_Nat"
begin

section \<open>Python strings\<close>

text \<open>
  A Python \<open>str\<close> is a sequence of Unicode code points; a code point is a natural
  number here, so that the ranges of the source's patterns (accented letters up to
  U+0178) are written as they are. The character tables of the Python runtime
  (\<open>str.lower\<close>, \<open>str.title\<close>, \<open>str.isdigit\<close> and the classes \<open>\d\<close> and \<open>\w\<close> of
  \<open>re\<close>) are written out for the blocks Basic Latin, Latin-1 Supplement and Latin
  Extended-A (U+0000 to U+017F); a code point above U+017F is taken to be caseless and
  neither a digit nor a word character. The whitespace table (\<open>str.isspace\<close>, \<open>\s\<close>,
  what \<open>str.strip\<close> removes) is complete.
\<close>

type_synonym ustring = "nat list"

definition ustr :: "string \<Rightarrow> ustring" where
  "ustr s = map of_char s"

definition isspace :: "nat \<Rightarrow> bool" where
  "isspace c \<longleftrightarrow>
     (9 \<le> c \<and> c \<le> 13) \<or> (28 \<le> c \<and> c \<le> 32) \<or> c = 133 \<or> c = 160 \<or> c = 5760 \<or>
     (8192 \<le> c \<and> c \<le> 8202) \<or> c = 8232 \<or> c = 8233 \<or> c = 8239 \<or> c = 8287 \<or> c = 12288"

definition is_decimal :: "nat \<Rightarrow> bool" where
  \<comment> \<open>the class \<open>\d\<close>\<close>
  "is_decimal c \<longleftrightarrow> 48 \<le> c \<and> c \<le> 57"

definition is_word :: "nat \<Rightarrow> bool" where
  \<comment> \<open>the class \<open>\w\<close>: alphanumeric or underscore\<close>
  "is_word c \<longleftrightarrow>
     (48 \<le> c \<and> c \<le> 57) \<or> (65 \<le> c \<and> c \<le> 90) \<or> c = 95 \<or> (97 \<le> c \<and> c \<le> 122) \<or>
     c = 170 \<or> c = 178 \<or> c = 179 \<or> c = 181 \<or> c = 185 \<or> c = 186 \<or> (188 \<le> c \<and> c \<le> 190) \<or>
     (192 \<le> c \<and> c \<le> 214) \<or> (216 \<le> c \<and> c \<le> 246) \<or> (248 \<le> c \<and> c \<le> 383)"

definition lower_cp :: "nat \<Rightarrow> ustring" where
  \<comment> \<open>the lower case of one code point; U+0130 becomes two code points\<close>
  "lower_cp c =
     (if (65 \<le> c \<and> c \<le> 90) \<or> (192 \<le> c \<and> c \<le> 214) \<or> (216 \<le> c \<and> c \<le> 222) then [c + 32]
      else if c = 304 then [105, 775]
      else if c = 376 then [255]
      else if ((256 \<le> c \<and> c \<le> 311) \<or> (330 \<le> c \<and> c \<le> 375)) \<and> even c then [c + 1]
      else if ((313 \<le> c \<and> c \<le> 328) \<or> (377 \<le> c \<and> c \<le> 382)) \<and> odd c then [c + 1]
      else [c])"

definition lower :: "ustring \<Rightarrow> ustring" where
  "lower s = concat (map lower_cp s)"

definition title_cp :: "nat \<Rightarrow> ustring" where
  \<comment> \<open>the title case of one code point\<close>
  "title_cp c =
     (if (97 \<le> c \<and> c \<le> 122) \<or> (224 \<le> c \<and> c \<le> 246) \<or> (248 \<le> c \<and> c \<le> 254) then [c - 32]
      else if c = 181 then [924]
      else if c = 223 then [83, 115]
      else if c = 255 then [376]
      else if c = 305 then [73]
      else if c = 329 then [700, 78]
      else if c = 383 then [83]
      else if ((257 \<le> c \<and> c \<le> 311) \<or> (331 \<le> c \<and> c \<le> 375)) \<and> odd c then [c - 1]
      else if ((314 \<le> c \<and> c \<le> 328) \<or> (378 \<le> c \<and> c \<le> 382)) \<and> even c then [c - 1]
      else [c])"

definition is_cased :: "nat \<Rightarrow> bool" where
  "is_cased c \<longleftrightarrow>
     (65 \<le> c \<and> c \<le> 90) \<or> (97 \<le> c \<and> c \<le> 122) \<or> c = 170 \<or> c = 181 \<or> c = 186 \<or>
     (192 \<le> c \<and> c \<le> 214) \<or> (216 \<le> c \<and> c \<le> 246) \<or> (248 \<le> c \<and> c \<le> 383)"

fun title_from :: "bool \<Rightarrow> ustring \<Rightarrow> ustring" where
  \<comment> \<open>\<open>str.title\<close>; the flag says whether the previous code point was cased\<close>
  "title_from prev [] = []"
| "title_from prev (c # cs) =
     (if prev then lower_cp c else title_cp c) @ title_from (is_cased c) cs"

definition title :: "ustring \<Rightarrow> ustring" where
  "title s = title_from False s"

definition isdigit_cp :: "nat \<Rightarrow> bool" where
  "isdigit_cp c \<longleftrightarrow> (48 \<le> c \<and> c \<le> 57) \<or> c = 178 \<or> c = 179 \<or> c = 185"

definition isdigit :: "ustring \<Rightarrow> bool" where
  \<comment> \<open>\<open>str.isdigit\<close>: non-empty and digits only\<close>
  "isdigit s \<longleftrightarrow> s \<noteq> [] \<and> list_all isdigit_cp s"

definition strip :: "ustring \<Rightarrow> ustring" where
  \<comment> \<open>\<open>str.strip()\<close>\<close>
  "strip s = dropWhile isspace (rev (dropWhile isspace (rev s)))"

fun split_on :: "nat \<Rightarrow> ustring \<Rightarrow> ustring list" where
  \<comment> \<open>\<open>s.split(sep)\<close> for a separator of one code point\<close>
  "split_on sep [] = [[]]"
| "split_on sep (c # cs) =
     (if c = sep then [] # split_on sep cs
      else (case split_on sep cs of [] \<Rightarrow> [[c]] | p # ps \<Rightarrow> (c # p) # ps))"

fun split_ws :: "ustring \<Rightarrow> ustring \<Rightarrow> ustring list" where
  \<comment> \<open>\<open>s.split()\<close>: the maximal runs without whitespace; the first argument is the
      run being read, reversed\<close>
  "split_ws acc [] = (if acc = [] then [] else [rev acc])"
| "split_ws acc (c # cs) =
     (if isspace c then (if acc = [] then split_ws [] cs else rev acc # split_ws [] cs)
      else split_ws (c # acc) cs)"

fun join :: "ustring \<Rightarrow> ustring list \<Rightarrow> ustring" where
  \<comment> \<open>\<open>sep.join(parts)\<close>\<close>
  "join sep [] = []"
| "join sep [p] = p"
| "join sep (p # q # ps) = p @ sep @ join sep (q # ps)"

fun startswith :: "ustring \<Rightarrow> ustring \<Rightarrow> bool" where
  \<comment> \<open>\<open>s.startswith(p)\<close>\<close>
  "startswith s [] = True"
| "startswith [] (p # ps) = False"
| "startswith (c # cs) (p # ps) = (c = p \<and> startswith cs ps)"

fun contains :: "ustring \<Rightarrow> ustring \<Rightarrow> bool" where
  \<comment> \<open>\<open>sub in s\<close>, written \<open>contains sub s\<close>\<close>
  "contains sub [] = (sub = [])"
| "contains sub (c # cs) = (startswith (c # cs) sub \<or> contains sub cs)"

definition replace :: "nat \<Rightarrow> nat \<Rightarrow> ustring \<Rightarrow> ustring" where
  \<comment> \<open>\<open>s.replace(a, b)\<close> for single code points\<close>
  "replace a b s = map (\<lambda>c. if c = a then b else c) s"

section \<open>The regular expressions of the source\<close>

text \<open>
  Each pattern the source hands to \<open>re\<close> is written as the function that \<open>re.search\<close>
  or \<open>re.sub\<close> computes for it. In all of them a greedy repetition takes the maximal
  run of its class and is followed by something outside that class, so that
  backtracking to a shorter run can never succeed: the leftmost match is the one
  found with maximal runs.
\<close>

definition word_boundary :: "nat option \<Rightarrow> nat option \<Rightarrow> bool" where
  \<comment> \<open>\<open>\b\<close> between the code point before and the one after (\<open>None\<close> at either end of
      the string)\<close>
  "word_boundary prev next_cp \<longleftrightarrow>
     (case prev of None \<Rightarrow> False | Some c \<Rightarrow> is_word c) \<noteq>
     (case next_cp of None \<Rightarrow> False | Some c \<Rightarrow> is_word c)"

definition five_digits :: "ustring \<Rightarrow> bool" where
  \<comment> \<open>\<open>\d{5}\<close> at the start of the string\<close>
  "five_digits s \<longleftrightarrow> length (take 5 s) = 5 \<and> list_all is_decimal (take 5 s)"

definition city_initial :: "nat \<Rightarrow> bool" where
  \<comment> \<open>the class \<open>[A-Z\<dots>]\<close> from \<open>A\<close> to \<open>Z\<close> and from U+00C0 to U+0178\<close>
  "city_initial c \<longleftrightarrow> (65 \<le> c \<and> c \<le> 90) \<or> (192 \<le> c \<and> c \<le> 376)"

definition city_char :: "nat \<Rightarrow> bool" where
  \<comment> \<open>the class of letters \<open>A-Z\<close>, \<open>a-z\<close>, U+00C0 to U+00FF, \<open>\s\<close>, hyphen and
      apostrophe\<close>
  "city_char c \<longleftrightarrow>
     (65 \<le> c \<and> c \<le> 90) \<or> (97 \<le> c \<and> c \<le> 122) \<or> (192 \<le> c \<and> c \<le> 255) \<or>
     isspace c \<or> c = 45 \<or> c = 39"

definition city_pattern_at :: "ustring \<Rightarrow> ustring option" where
  \<comment> \<open>the pattern after its \<open>\b\<close>, matched at the start of the string: five digits,
      whitespace, an initial and at least one more city character; group 1\<close>
  "city_pattern_at s =
     (if five_digits s then
        (let r = drop 5 s in
         if takeWhile isspace r = [] then None
         else (case dropWhile isspace r of
                 [] \<Rightarrow> None
               | c # t \<Rightarrow>
                   if city_initial c \<and> takeWhile city_char t \<noteq> []
                   then Some (c # takeWhile city_char t) else None))
      else None)"

fun city_pattern_search :: "nat option \<Rightarrow> ustring \<Rightarrow> ustring option" where
  \<comment> \<open>\<open>re.search(city_pattern, address)\<close>, group 1 of the leftmost match; the first
      argument is the code point before the current position\<close>
  "city_pattern_search prev [] = None"
| "city_pattern_search prev (c # cs) =
     (if word_boundary prev (Some c) then
        (case city_pattern_at (c # cs) of
           Some g \<Rightarrow> Some g
         | None \<Rightarrow> city_pattern_search (Some c) cs)
      else city_pattern_search (Some c) cs)"

definition city_junk :: "nat \<Rightarrow> bool" where
  \<comment> \<open>the negated class of the clean-up: not \<open>\w\<close>, \<open>\s\<close>, hyphen, apostrophe or
      U+00C0 to U+00FF\<close>
  "city_junk c \<longleftrightarrow> \<not> (is_word c \<or> isspace c \<or> c = 45 \<or> c = 39 \<or> (192 \<le> c \<and> c \<le> 255))"

definition postal_code_at :: "nat option \<Rightarrow> ustring \<Rightarrow> bool" where
  \<comment> \<open>\<open>\b\d{5}\b\<close> matched at the start of the string\<close>
  "postal_code_at prev s \<longleftrightarrow>
     five_digits s \<and> word_boundary prev (Some (hd s)) \<and>
     word_boundary (Some (s ! 4)) (case drop 5 s of [] \<Rightarrow> None | c # _ \<Rightarrow> Some c)"

function remove_postal_codes :: "nat option \<Rightarrow> ustring \<Rightarrow> ustring" where
  \<comment> \<open>\<open>re.sub\<close> of \<open>\b\d{5}\b\<close> by the empty string\<close>
  "remove_postal_codes prev [] = []"
| "remove_postal_codes prev (c # cs) =
     (if postal_code_at prev (c # cs)
      then remove_postal_codes (Some ((c # cs) ! 4)) (drop 5 (c # cs))
      else c # remove_postal_codes (Some c) cs)"
  by pat_completeness auto
termination
  by (relation "measure (\<lambda>(b, s). length s)") auto

fun reviews_search :: "ustring \<Rightarrow> ustring option" where
  \<comment> \<open>\<open>re.search\<close> of an opening parenthesis, \<open>\d+\<close> and a closing parenthesis;
      group 1\<close>
  "reviews_search [] = None"
| "reviews_search (c # cs) =
     (if c = 40 \<and> takeWhile is_decimal cs \<noteq> [] \<and>
         (case dropWhile is_decimal cs of [] \<Rightarrow> False | x # _ \<Rightarrow> x = 41)
      then Some (takeWhile is_decimal cs)
      else reviews_search cs)"

fun two_tokens_search :: "ustring \<Rightarrow> ustring \<Rightarrow> ustring \<Rightarrow> bool" where
  \<comment> \<open>\<open>re.search\<close> of a literal, \<open>\s+\<close> and a second literal, neither literal empty
      nor starting with whitespace\<close>
  "two_tokens_search a b [] = False"
| "two_tokens_search a b (c # cs) =
     ((startswith (c # cs) a \<and>
       takeWhile isspace (drop (length a) (c # cs)) \<noteq> [] \<and>
       startswith (dropWhile isspace (drop (length a) (c # cs))) b) \<or>
      two_tokens_search a b cs)"

definition digits_value :: "ustring \<Rightarrow> nat" where
  \<comment> \<open>the number a string of digits writes in base ten, as \<open>int\<close> gives it; the
      interpreter's optional limit on the number of digits is not modelled\<close>
  "digits_value ds = foldl (\<lambda>a d. 10 * a + (d - 48)) 0 ds"

section \<open>Python values\<close>

text \<open>
  \<open>float(s)\<close> on a string: whitespace around the text is ignored, then comes an
  optional sign and either \<open>inf\<close>, \<open>infinity\<close> or \<open>nan\<close> in any case, or a decimal
  number with an optional exponent, where single underscores may separate digits.
  \<open>Finite r\<close> stands for the double nearest to the rational \<open>r\<close> that the text writes.
\<close>

datatype pyfloat = Finite rat | PosInf | NegInf | NaN

fun digit_tail :: "ustring \<Rightarrow> ustring \<times> ustring" where
  \<comment> \<open>after a digit: digits, each with at most one underscore before it; the digits
      read and the rest\<close>
  "digit_tail [] = ([], [])"
| "digit_tail (c # cs) =
     (if is_decimal c then (case digit_tail cs of (ds, r) \<Rightarrow> (c # ds, r))
      else if c = 95 then
        (case cs of
           [] \<Rightarrow> ([], c # cs)
         | d # t \<Rightarrow>
             if is_decimal d then (case digit_tail t of (ds, r) \<Rightarrow> (d # ds, r))
             else ([], c # cs))
      else ([], c # cs))"

definition digitpart :: "ustring \<Rightarrow> ustring \<times> ustring" where
  "digitpart s =
     (case s of
        [] \<Rightarrow> ([], [])
      | c # cs \<Rightarrow>
          if is_decimal c then (case digit_tail cs of (ds, r) \<Rightarrow> (c # ds, r)) else ([], s))"

definition parse_sign :: "ustring \<Rightarrow> bool \<times> ustring" where
  \<comment> \<open>an optional sign; \<open>True\<close> for minus\<close>
  "parse_sign s =
     (case s of
        [] \<Rightarrow> (False, [])
      | c # cs \<Rightarrow> if c = 45 then (True, cs) else if c = 43 then (False, cs) else (False, s))"

definition parse_exponent :: "ustring \<Rightarrow> int option" where
  \<comment> \<open>what follows the mantissa: nothing, or \<open>e\<close> or \<open>E\<close>, a sign and digits\<close>
  "parse_exponent r =
     (case r of
        [] \<Rightarrow> Some 0
      | c # cs \<Rightarrow>
          if c = 101 \<or> c = 69 then
            (case parse_sign cs of
               (neg, t) \<Rightarrow>
                 (case digitpart t of
                    (ds, u) \<Rightarrow>
                      if ds \<noteq> [] \<and> u = []
                      then Some (if neg then - int (digits_value ds) else int (digits_value ds))
                      else None))
          else None)"

definition decimal_value :: "ustring \<Rightarrow> ustring \<Rightarrow> int \<Rightarrow> rat" where
  \<comment> \<open>integer digits, fraction digits and exponent\<close>
  "decimal_value ip fp e =
     (let m = of_nat (digits_value (ip @ fp)); k = e - int (length fp)
      in if 0 \<le> k then m * 10 ^ nat k else m / 10 ^ nat (- k))"

definition parse_number :: "ustring \<Rightarrow> rat option" where
  "parse_number s =
     (case digitpart s of
        (ip, r1) \<Rightarrow>
          (case r1 of
             [] \<Rightarrow> if ip = [] then None else Some (decimal_value ip [] 0)
           | c # cs \<Rightarrow>
               if c = 46 then
                 (case digitpart cs of
                    (fp, r2) \<Rightarrow>
                      if ip = [] \<and> fp = [] then None
                      else map_option (decimal_value ip fp) (parse_exponent r2))
               else if ip = [] then None
               else map_option (decimal_value ip []) (parse_exponent r1)))"

definition py_float :: "ustring \<Rightarrow> pyfloat option" where
  \<comment> \<open>\<open>float(s)\<close>; \<open>None\<close> where Python raises \<open>ValueError\<close>\<close>
  "py_float s =
     (case parse_sign (strip s) of
        (neg, u) \<Rightarrow>
          if lower u = ustr ''inf'' \<or> lower u = ustr ''infinity''
          then Some (if neg then NegInf else PosInf)
          else if lower u = ustr ''nan'' then Some NaN
          else map_option (\<lambda>r. Finite (if neg then - r else r)) (parse_number u))"

datatype py_error = TypeError | ValueError | OSError | ParserError

datatype py_value = PyNone | PyStr ustring | PyInt int | PyFloat pyfloat

definition truthy :: "py_value option \<Rightarrow> bool" where
  \<comment> \<open>the truth value of \<open>d.get(key)\<close>\<close>
  "truthy v \<longleftrightarrow>
     (case v of
        None \<Rightarrow> False
      | Some PyNone \<Rightarrow> False
      | Some (PyStr s) \<Rightarrow> s \<noteq> []
      | Some (PyInt i) \<Rightarrow> i \<noteq> 0
      | Some (PyFloat f) \<Rightarrow> f \<noteq> Finite 0)"

section \<open>City inference\<close>

definition non_specifiee :: ustring where
  \<comment> \<open>the placeholder \<open>Non sp\'ecifi\'ee\<close>\<close>
  "non_specifiee = ustr ''Non sp'' @ [233] @ ustr ''cifi'' @ [233] @ ustr ''e''"

definition non_specifie :: ustring where
  "non_specifie = ustr ''Non sp'' @ [233] @ ustr ''cifi'' @ [233]"

definition common_cities :: "ustring list" where
  "common_cities =
     [ustr ''Paris'', ustr ''Lyon'', ustr ''Marseille'', ustr ''Toulouse'', ustr ''Nice'',
      ustr ''Nantes'', ustr ''Strasbourg'', ustr ''Montpellier'', ustr ''Bordeaux'',
      ustr ''Lille'', ustr ''Rennes'', ustr ''Reims'', ustr ''Le Havre'',
      ustr ''Saint-'' @ [201] @ ustr ''tienne'', ustr ''Toulon'', ustr ''Grenoble'',
      ustr ''Dijon'', ustr ''Angers'', ustr ''N'' @ [238] @ ustr ''mes'',
      ustr ''Villeurbanne'']"

definition known_city :: "ustring \<Rightarrow> ustring option" where
  \<comment> \<open>the loop over \<open>common_cities\<close>: the first name whose lower case occurs in the
      lower-cased address\<close>
  "known_city address = List.find (\<lambda>city. contains (lower city) (lower address)) common_cities"

definition last_part_city :: "ustring \<Rightarrow> ustring option" where
  \<comment> \<open>the last comma-separated part, when there are two parts or more, without its
      postal codes, when more than two code points are left\<close>
  "last_part_city address =
     (let parts = split_on 44 address in
      if length parts \<ge> 2 then
        (let last_part = strip (remove_postal_codes None (strip (last parts))) in
         if last_part \<noteq> [] \<and> length last_part > 2 then Some last_part else None)
      else None)"

definition city_of_string :: "ustring \<Rightarrow> ustring" where
  \<comment> \<open>the body of the \<open>try\<close> on a string\<close>
  "city_of_string address =
     (case city_pattern_search None address of
        Some g \<Rightarrow> strip (filter (\<lambda>c. \<not> city_junk c) (strip g))
      | None \<Rightarrow>
          (case known_city address of
             Some city \<Rightarrow> city
           | None \<Rightarrow>
               (case last_part_city address of
                  Some last_part \<Rightarrow> last_part
                | None \<Rightarrow> non_specifiee)))"

definition city_body :: "py_value \<Rightarrow> py_error + ustring" where
  \<comment> \<open>the body of the \<open>try\<close>: \<open>re.search\<close> raises \<open>TypeError\<close> on anything but a
      string\<close>
  "city_body address =
     (case address of PyStr a \<Rightarrow> Inr (city_of_string a) | _ \<Rightarrow> Inl TypeError)"

definition extract_city_from_address :: "py_value \<Rightarrow> ustring" where
  \<comment> \<open>\<open>_extract_city_from_address\<close>: any exception of the body gives the placeholder\<close>
  "extract_city_from_address address =
     (case city_body address of Inl e \<Rightarrow> non_specifiee | Inr city \<Rightarrow> city)"

section \<open>The parsed document\<close>

text \<open>
  The tree that \<open>BeautifulSoup\<close> builds: a tag has a name, the list of its classes
  (the \<open>class\<close> attribute split at whitespace, empty without the attribute), its other
  attributes and its children; the leaves are strings.
\<close>

datatype node =
    Tag ustring "ustring list" "(ustring \<times> ustring) list" "node list"
  | NavigableString ustring

fun descendants :: "node \<Rightarrow> node list" where
  \<comment> \<open>everything below a node, in document order\<close>
  "descendants (Tag name cls attrs children) =
     concat (map (\<lambda>child. child # descendants child) children)"
| "descendants (NavigableString s) = []"

fun all_strings :: "node \<Rightarrow> ustring list" where
  "all_strings (Tag name cls attrs children) = concat (map all_strings children)"
| "all_strings (NavigableString s) = [s]"

definition get_text :: "node \<Rightarrow> ustring" where
  \<comment> \<open>\<open>get_text(strip=True)\<close>: the strings below the node, each stripped, the empty
      ones left out, joined without separator\<close>
  "get_text n = concat (filter (\<lambda>t. t \<noteq> []) (map strip (all_strings n)))"

definition is_tag :: "ustring \<Rightarrow> node \<Rightarrow> bool" where
  "is_tag name n \<longleftrightarrow> (case n of Tag m cls attrs children \<Rightarrow> m = name | NavigableString s \<Rightarrow> False)"

definition class_matches :: "(ustring \<Rightarrow> bool) \<Rightarrow> node \<Rightarrow> bool" where
  \<comment> \<open>the filter \<open>class_=\<dots>\<close>: one of the classes matches, or the classes joined by
      spaces do\<close>
  "class_matches m n \<longleftrightarrow>
     (case n of
        Tag name cls attrs children \<Rightarrow> list_ex m cls \<or> m (join [32] cls)
      | NavigableString s \<Rightarrow> False)"

definition get_attr :: "node \<Rightarrow> ustring \<Rightarrow> ustring option" where
  "get_attr n key =
     (case n of Tag name cls attrs children \<Rightarrow> map_of attrs key | NavigableString s \<Rightarrow> None)"

definition find_all :: "(node \<Rightarrow> bool) \<Rightarrow> node \<Rightarrow> node list" where
  "find_all p n = filter p (descendants n)"

definition find_first :: "(node \<Rightarrow> bool) \<Rightarrow> node \<Rightarrow> node option" where
  \<comment> \<open>\<open>find\<close>: the first match of \<open>find_all\<close>\<close>
  "find_first p n = List.find p (descendants n)"

section \<open>Extraction of one business\<close>

text \<open>
  The dictionary of a business keeps its keys in insertion order; it is an
  association list without repeated keys.
\<close>

type_synonym business = "(string \<times> py_value) list"

definition setdefault :: "string \<Rightarrow> py_value \<Rightarrow> business \<Rightarrow> business" where
  "setdefault k v b = (case map_of b k of None \<Rightarrow> b @ [(k, v)] | Some w \<Rightarrow> b)"

record extractor =
  default_city :: "ustring option"
  default_business_type :: "ustring option"

text \<open>
  The two attributes exist on the object only once \<open>process_html_file\<close> has set them;
  \<open>None\<close> is an attribute that is missing or holds \<open>None\<close>, which the source treats
  alike.
\<close>

definition address_keywords :: "ustring list" where
  "address_keywords = [ustr ''rue'', ustr ''avenue'', ustr ''boulevard'', ustr ''place'', ustr ''bd'']"

definition has_address_keyword :: "ustring \<Rightarrow> bool" where
  \<comment> \<open>\<open>any(keyword in text.lower() for keyword in \<dots>)\<close>\<close>
  "has_address_keyword text \<longleftrightarrow> list_ex (\<lambda>keyword. contains keyword (lower text)) address_keywords"

fun first_address_part :: "ustring list \<Rightarrow> ustring option" where
  \<comment> \<open>the loop over the parts, left at the first stripped part with a keyword\<close>
  "first_address_part [] = None"
| "first_address_part (part # parts) =
     (if has_address_keyword (strip part) then Some (strip part)
      else first_address_part parts)"

definition name_pred :: "node \<Rightarrow> bool" where
  "name_pred n \<longleftrightarrow>
     is_tag (ustr ''div'') n \<and>
     class_matches (two_tokens_search (ustr ''qBF1Pd'') (ustr ''fontHeadlineSmall'')) n"

definition rating_container_pred :: "node \<Rightarrow> bool" where
  "rating_container_pred n \<longleftrightarrow>
     is_tag (ustr ''span'') n \<and> class_matches (contains (ustr ''ZkP5Je'')) n"

definition span_with_class :: "ustring \<Rightarrow> node \<Rightarrow> bool" where
  "span_with_class cl n \<longleftrightarrow> is_tag (ustr ''span'') n \<and> class_matches (\<lambda>c. c = cl) n"

definition info_pred :: "node \<Rightarrow> bool" where
  "info_pred n \<longleftrightarrow> is_tag (ustr ''div'') n \<and> class_matches (\<lambda>c. c = ustr ''W4Efsd'') n"

definition website_pred :: "node \<Rightarrow> bool" where
  "website_pred n \<longleftrightarrow>
     is_tag (ustr ''a'') n \<and>
     class_matches (two_tokens_search (ustr ''lcr4fd'') (ustr ''S9kvJb'')) n"

definition styled_span_pred :: "node \<Rightarrow> bool" where
  \<comment> \<open>\<open>find_all('span', style=True)\<close>\<close>
  "styled_span_pred n \<longleftrightarrow> is_tag (ustr ''span'') n \<and> get_attr n (ustr ''style'') \<noteq> None"

definition extract_rating :: "node \<Rightarrow> business \<Rightarrow> business" where
  \<comment> \<open>the rating and the number of reviews, read in the rating container\<close>
  "extract_rating rating_container business =
     (let business1 =
        (case find_first (span_with_class (ustr ''MW4etd'')) rating_container of
           None \<Rightarrow> business
         | Some rating_text \<Rightarrow>
             (case py_float (replace 44 46 (get_text rating_text)) of
                Some f \<Rightarrow> AList.update ''note'' (PyFloat f) business
              | None \<Rightarrow> AList.update ''note'' PyNone business))
      in (case find_first (span_with_class (ustr ''UY7F9'')) rating_container of
            None \<Rightarrow> business1
          | Some reviews_text \<Rightarrow>
              (case reviews_search (get_text reviews_text) of
                 Some digits \<Rightarrow>
                   AList.update ''nombre_avis'' (PyInt (int (digits_value digits))) business1
               | None \<Rightarrow> business1)))"

definition address_step :: "business \<Rightarrow> node \<Rightarrow> business" where
  \<comment> \<open>the body of the loop over the info elements\<close>
  "address_step business info_div =
     (let text = get_text info_div in
      if has_address_keyword text then
        (if 183 \<in> set text then
           (case first_address_part (split_on 183 text) of
              Some part \<Rightarrow>
                AList.update ''ville'' (PyStr (extract_city_from_address (PyStr part)))
                  (AList.update ''adresse'' (PyStr part) business)
            | None \<Rightarrow> business)
         else business)
      else business)"

definition status_step :: "business \<Rightarrow> node \<Rightarrow> business" where
  \<comment> \<open>the body of the loop over the styled spans\<close>
  "status_step business element =
     (let style = (case get_attr element (ustr ''style'') of None \<Rightarrow> [] | Some v \<Rightarrow> v);
          text = get_text element
      in if contains (ustr ''color: rgba(220,54,46'') style \<and> text \<noteq> []
         then AList.update ''statut_ouverture'' (PyStr text) business
         else if contains (ustr ''color: rgba(25,134,57'') style \<and> text \<noteq> []
         then AList.update ''statut_ouverture'' (PyStr text) business
         else if contains (ustr ''color: rgba(178,108,0'') style \<and> text \<noteq> []
         then AList.update ''statut_ouverture'' (PyStr text) business
         else business)"

definition rating_stage :: "node \<Rightarrow> business \<Rightarrow> business" where
  \<comment> \<open>the block of the rating container\<close>
  "rating_stage container business =
     (case find_first rating_container_pred container of
        None \<Rightarrow> business
      | Some rating_container \<Rightarrow> extract_rating rating_container business)"

definition address_stage :: "node \<Rightarrow> business \<Rightarrow> business" where
  \<comment> \<open>the loop over the info elements\<close>
  "address_stage container business = foldl address_step business (find_all info_pred container)"

definition phone_stage :: "node \<Rightarrow> business \<Rightarrow> business" where
  "phone_stage container business =
     (case find_first (span_with_class (ustr ''UsdlK'')) container of
        None \<Rightarrow> business
      | Some phone_element \<Rightarrow>
          AList.update ''telephone'' (PyStr (get_text phone_element)) business)"

definition website_stage :: "node \<Rightarrow> business \<Rightarrow> business" where
  "website_stage container business =
     (case find_first website_pred container of
        None \<Rightarrow> business
      | Some website_link \<Rightarrow>
          (case get_attr website_link (ustr ''href'') of
             None \<Rightarrow> business
           | Some href \<Rightarrow>
               if href \<noteq> [] then AList.update ''site_web'' (PyStr href) business
               else business))"

definition status_stage :: "node \<Rightarrow> business \<Rightarrow> business" where
  \<comment> \<open>the loop over the styled spans\<close>
  "status_stage container business =
     foldl status_step business (find_all styled_span_pred container)"

definition extract_fields :: "node \<Rightarrow> node \<Rightarrow> business" where
  \<comment> \<open>the dictionary before validation and defaults, given the name element: the
      blocks of the source in their order\<close>
  "extract_fields name_element container =
     status_stage container
       (website_stage container
         (phone_stage container
           (address_stage container
             (rating_stage container [(''nom'', PyStr (get_text name_element))]))))"

definition add_defaults :: "extractor \<Rightarrow> business \<Rightarrow> business" where
  \<comment> \<open>the default fields, in the order of the source\<close>
  "add_defaults self business =
     setdefault ''statut_ouverture'' (PyStr non_specifie)
       (setdefault ''site_web'' (PyStr non_specifie)
         (setdefault ''telephone'' (PyStr non_specifie)
           (setdefault ''ville'' (PyStr non_specifiee)
             (setdefault ''adresse'' (PyStr non_specifiee)
               (AList.update ''type_entreprise''
                  (PyStr (case default_business_type self of
                            None \<Rightarrow> non_specifie
                          | Some t \<Rightarrow> if t \<noteq> [] then t else non_specifie))
                  (setdefault ''nombre_avis'' (PyInt 0)
                    (setdefault ''note'' PyNone business)))))))"

definition extract_single_business :: "extractor \<Rightarrow> node \<Rightarrow> business option" where
  \<comment> \<open>\<open>_extract_single_business\<close>; \<open>None\<close> is the source's \<open>None\<close>. The only raise of the
      body on a tag of the parsed document is that of \<open>float\<close>, caught where it
      happens, so the outer handler of the \<open>try\<close> has no branch here.\<close>
  "extract_single_business self container =
     (case find_first name_pred container of
        None \<Rightarrow> None
      | Some name_element \<Rightarrow>
          (let business = extract_fields name_element container in
           if \<not> truthy (map_of business ''nom'') then None
           else Some (add_defaults self business)))"

section \<open>The batch\<close>

record extraction =
  businesses :: "business list"
  successful_extractions :: nat
  failed_extractions :: nat
  extraction_errors :: "ustring list"

definition incomplete_message :: ustring where
  \<comment> \<open>the reason recorded for a container without a business\<close>
  "incomplete_message =
     ustr ''Donn'' @ [233] @ ustr ''es d'' @ [39] @ ustr ''entreprise incompl'' @ [232] @ ustr ''tes''"

definition container_step :: "extractor \<Rightarrow> extraction \<Rightarrow> node \<Rightarrow> extraction" where
  \<comment> \<open>the body of the loop over the containers; \<open>_extract_single_business\<close> never
      raises, a dictionary it returns is never empty\<close>
  "container_step self st container =
     (case extract_single_business self container of
        None \<Rightarrow>
          st\<lparr>failed_extractions := failed_extractions st + 1,
             extraction_errors := extraction_errors st @ [incomplete_message]\<rparr>
      | Some business_data \<Rightarrow>
          if business_data \<noteq> [] then
            st\<lparr>businesses := businesses st @ [business_data],
               successful_extractions := successful_extractions st + 1\<rparr>
          else
            st\<lparr>failed_extractions := failed_extractions st + 1,
               extraction_errors := extraction_errors st @ [incomplete_message]\<rparr>)"

definition business_containers :: "node \<Rightarrow> node list" where
  "business_containers soup =
     find_all (\<lambda>n. is_tag (ustr ''div'') n \<and> class_matches (contains (ustr ''Nv2PK'')) n) soup"

definition extract_all :: "extractor \<Rightarrow> node list \<Rightarrow> extraction" where
  \<comment> \<open>the loop over the containers, from the empty counters\<close>
  "extract_all self containers =
     foldl (container_step self)
       \<lparr>businesses = [], successful_extractions = 0, failed_extractions = 0,
        extraction_errors = []\<rparr> containers"

definition extract_businesses_from_html ::
  "extractor \<Rightarrow> (ustring \<Rightarrow> py_error + node) \<Rightarrow> ustring \<Rightarrow> business list" where
  \<comment> \<open>\<open>extract_businesses_from_html\<close>; the parser is the library's, a parameter here,
      and an exception it raises is caught by the outer handler\<close>
  "extract_businesses_from_html self parse html_content =
     (case parse html_content of
        Inl e \<Rightarrow> []
      | Inr soup \<Rightarrow> businesses (extract_all self (business_containers soup)))"

record stats =
  total :: nat
  success :: nat
  errors :: nat
  duplicates :: "nat option"
  error_details :: "ustring list option"

definition company_name :: "business \<Rightarrow> ustring" where
  \<comment> \<open>\<open>business.get('nom', '')\<close>\<close>
  "company_name business = (case map_of business ''nom'' of Some (PyStr s) \<Rightarrow> s | _ \<Rightarrow> [])"

definition send_step ::
  "(ustring \<Rightarrow> bool) \<Rightarrow> (business \<Rightarrow> bool) \<Rightarrow> nat \<times> nat \<times> nat \<Rightarrow> business \<Rightarrow> nat \<times> nat \<times> nat" where
  \<comment> \<open>the body of the loop that sends; the counters are successes, errors and
      duplicates\<close>
  "send_step check_if_company_exists send_to_notion counts business =
     (case counts of
        (success_count, error_count, duplicate_count) \<Rightarrow>
          if check_if_company_exists (company_name business)
          then (success_count, error_count, duplicate_count + 1)
          else if send_to_notion business
          then (success_count + 1, error_count, duplicate_count)
          else (success_count, error_count + 1, duplicate_count))"

definition process_html_file ::
  "extractor \<Rightarrow> (ustring \<Rightarrow> py_error + ustring) \<Rightarrow> (ustring \<Rightarrow> py_error + node) \<Rightarrow>
   (ustring \<Rightarrow> bool) \<Rightarrow> (business \<Rightarrow> bool) \<Rightarrow>
   ustring \<Rightarrow> ustring option \<Rightarrow> ustring option \<Rightarrow> extractor \<times> stats" where
  \<comment> \<open>\<open>process_html_file\<close>; reading the file, parsing and the two calls to the remote
      service are parameters. The result is the object with its two attributes set,
      and the statistics.\<close>
  "process_html_file self read_file parse check_if_company_exists send_to_notion
       html_file_path city business_type =
     (let self1 = self\<lparr>default_city := city, default_business_type := business_type\<rparr> in
      case read_file html_file_path of
        Inl e \<Rightarrow>
          (self1, \<lparr>total = 0, success = 0, errors = 1, duplicates = None, error_details = None\<rparr>)
      | Inr html_content \<Rightarrow>
          (let found = extract_businesses_from_html self1 parse html_content in
           if found = [] then
             (self1, \<lparr>total = 0, success = 0, errors = 0, duplicates = None, error_details = None\<rparr>)
           else
             (case foldl (send_step check_if_company_exists send_to_notion) (0, 0, 0) found of
                (success_count, error_count, duplicate_count) \<Rightarrow>
                  (self1, \<lparr>total = length found, success = success_count, errors = error_count,
                           duplicates = Some duplicate_count, error_details = Some []\<rparr>))))"

definition get_or_create_ville_option :: "extractor \<Rightarrow> ustring \<Rightarrow> ustring" where
  \<comment> \<open>\<open>_get_or_create_ville_option\<close>\<close>
  "get_or_create_ville_option self ville =
     (case (case default_city self of None \<Rightarrow> None | Some d \<Rightarrow> if d \<noteq> [] then Some d else None) of
        Some d \<Rightarrow> strip d
      | None \<Rightarrow>
          if ville = [] \<or> strip ville = [] \<or> ville = non_specifiee then non_specifiee
          else if isdigit (strip ville) then non_specifiee
          else (let parts = split_ws [] (strip ville) in
                title (if length parts > 1 \<and> isdigit (hd parts)
                       then join [32] (tl parts) else strip ville)))"

definition notion_ville :: "extractor \<Rightarrow> business \<Rightarrow> ustring" where
  \<comment> \<open>the content of the property \<open>Ville\<close> that \<open>send_to_notion\<close> builds\<close>
  "notion_ville self business_data =
     get_or_create_ville_option self
       (case map_of business_data ''ville'' of Some (PyStr v) \<Rightarrow> v | _ \<Rightarrow> non_specifiee)"

section \<open>Auxiliary notions and example listings\<close>

definition field_names :: "string set" where
  \<comment> \<open>the nine keys of a finished dictionary\<close>
  "field_names =
     {''nom'', ''note'', ''nombre_avis'', ''type_entreprise'', ''adresse'', ''ville'',
      ''telephone'', ''site_web'', ''statut_ouverture''}"

definition named :: "ustring \<Rightarrow> business \<Rightarrow> bool" where
  \<comment> \<open>a dictionary under construction: known keys only, none repeated, and the name\<close>
  "named name b \<longleftrightarrow>
     fst ` set b \<subseteq> field_names \<and> distinct (map fst b) \<and> map_of b ''nom'' = Some (PyStr name)"

definition name_div :: "ustring \<Rightarrow> node" where
  "name_div name =
     Tag (ustr ''div'') [ustr ''qBF1Pd'', ustr ''fontHeadlineSmall''] [] [NavigableString name]"

definition rating_span :: "ustring \<Rightarrow> ustring \<Rightarrow> node" where
  "rating_span rating reviews =
     Tag (ustr ''span'') [ustr ''ZkP5Je''] []
       [Tag (ustr ''span'') [ustr ''MW4etd''] [] [NavigableString rating],
        Tag (ustr ''span'') [ustr ''UY7F9''] [] [NavigableString reviews]]"

definition info_div :: "ustring \<Rightarrow> node" where
  "info_div text = Tag (ustr ''div'') [ustr ''W4Efsd''] [] [NavigableString text]"

definition status_span :: "ustring \<Rightarrow> node list \<Rightarrow> node" where
  "status_span style children = Tag (ustr ''span'') [] [(ustr ''style'', style)] children"

definition listing :: "node list \<Rightarrow> node" where
  "listing children = Tag (ustr ''div'') [ustr ''Nv2PK'', ustr ''THOPZb''] [] children"

definition chez_paul :: node where
  "chez_paul =
     listing
       [name_div (ustr ''Chez Paul''),
        rating_span (ustr ''4,5'') (ustr ''(128)''),
        info_div (ustr ''Restaurant '' @ [183] @ ustr '' 12 Rue de la Paix, 75002 Paris''),
        Tag (ustr ''span'') [ustr ''UsdlK''] [] [NavigableString (ustr ''01 42 00 00 00'')],
        Tag (ustr ''a'') [ustr ''lcr4fd'', ustr ''S9kvJb'']
          [(ustr ''href'', ustr ''https://chezpaul.example/'')] [],
        status_span (ustr ''color: rgba(25,134,57,1.00);'') [NavigableString (ustr ''Ouvert'')]]"

definition chez_paul_record :: "ustring \<Rightarrow> business" where
  \<comment> \<open>the dictionary of \<open>chez_paul\<close>, for a given type of business\<close>
  "chez_paul_record business_type =
     [(''nom'', PyStr (ustr ''Chez Paul'')), (''note'', PyFloat (Finite (9 / 2))),
      (''nombre_avis'', PyInt 128),
      (''adresse'', PyStr (ustr ''12 Rue de la Paix, 75002 Paris'')),
      (''ville'', PyStr (ustr ''Paris'')),
      (''telephone'', PyStr (ustr ''01 42 00 00 00'')),
      (''site_web'', PyStr (ustr ''https://chezpaul.example/'')),
      (''statut_ouverture'', PyStr (ustr ''Ouvert'')),
      (''type_entreprise'', PyStr business_type)]"

definition nameless :: node where
  "nameless = listing [rating_span (ustr ''3,9'') (ustr ''(12)'')]"

definition empty_name :: node where
  "empty_name = listing [name_div (ustr ''  '')]"

definition plain :: extractor where
  "plain = \<lparr>default_city = None, default_business_type = None\<rparr>"

definition nantes :: extractor where
  "nantes =
     \<lparr>default_city = Some (ustr ''Nantes''), default_business_type = Some (ustr ''Restaurant'')\<rparr>"

definition produced :: "extractor \<Rightarrow> node \<Rightarrow> business option" where
  \<comment> \<open>the dictionary a container adds to the list, if any\<close>
  "produced self c =
     (case extract_single_business self c of
        None \<Rightarrow> None
      | Some b \<Rightarrow> if b \<noteq> [] then Some b else None)"

definition bistrot :: node where
  "bistrot = listing [name_div (ustr ''Le Bistrot'')]"

definition results_page :: "node list \<Rightarrow> node" where
  "results_page listings =
     Tag (ustr ''[document]'') [] [] [Tag (ustr ''div'') [ustr ''m6QErb''] [] listings]"

definition note_of :: "node \<Rightarrow> py_value" where
  \<comment> \<open>the rating the source reads in a container\<close>
  "note_of container =
     (case find_first rating_container_pred container of
        None \<Rightarrow> PyNone
      | Some rating_container \<Rightarrow>
          (case find_first (span_with_class (ustr ''MW4etd'')) rating_container of
             None \<Rightarrow> PyNone
           | Some rating_text \<Rightarrow>
               (case py_float (replace 44 46 (get_text rating_text)) of
                  Some f \<Rightarrow> PyFloat f
                | None \<Rightarrow> PyNone)))"

definition rating_in_range :: "py_value \<Rightarrow> bool" where
  \<comment> \<open>absent, or a decimal from 0 to 5\<close>
  "rating_in_range v \<longleftrightarrow>
     (case v of PyNone \<Rightarrow> True | PyFloat (Finite r) \<Rightarrow> 0 \<le> r \<and> r \<le> 5 | _ \<Rightarrow> False)"


definition high_rating :: node where
  "high_rating = listing [name_div (ustr ''Le Bistrot''), rating_span (ustr ''9,5'') (ustr ''(7)'')]"

definition bare_record :: "ustring \<Rightarrow> py_value \<Rightarrow> int \<Rightarrow> business" where
  \<comment> \<open>the dictionary of a listing with a name, a rating and a number of reviews only\<close>
  "bare_record name note reviews =
     [(''nom'', PyStr name), (''note'', note), (''nombre_avis'', PyInt reviews),
      (''type_entreprise'', PyStr non_specifie), (''adresse'', PyStr non_specifiee),
      (''ville'', PyStr non_specifiee), (''telephone'', PyStr non_specifie),
      (''site_web'', PyStr non_specifie), (''statut_ouverture'', PyStr non_specifie)]"

definition status_colour :: "node \<Rightarrow> bool" where
  \<comment> \<open>the inline style names one of the three colours\<close>
  "status_colour element \<longleftrightarrow>
     (let style = (case get_attr element (ustr ''style'') of None \<Rightarrow> [] | Some v \<Rightarrow> v)
      in contains (ustr ''color: rgba(220,54,46'') style \<or>
         contains (ustr ''color: rgba(25,134,57'') style \<or>
         contains (ustr ''color: rgba(178,108,0'') style)"

definition status_match :: "node \<Rightarrow> bool" where
  \<comment> \<open>one of the three colours, and some text\<close>
  "status_match element \<longleftrightarrow> status_colour element \<and> get_text element \<noteq> []"

definition status_only_record :: "ustring \<Rightarrow> ustring \<Rightarrow> business" where
  \<comment> \<open>the dictionary of a listing with a name and a status only\<close>
  "status_only_record name status =
     [(''nom'', PyStr name), (''statut_ouverture'', PyStr status), (''note'', PyNone),
      (''nombre_avis'', PyInt 0), (''type_entreprise'', PyStr non_specifie),
      (''adresse'', PyStr non_specifiee), (''ville'', PyStr non_specifiee),
      (''telephone'', PyStr non_specifie), (''site_web'', PyStr non_specifie)]"

definition closed_then_blank :: node where
  "closed_then_blank =
     listing
       [name_div (ustr ''Le Bistrot''),
        status_span (ustr ''color: rgba(220,54,46,1.00);'') [NavigableString (ustr ''Ferm'' @ [233])],
        status_span (ustr ''color: rgba(25,134,57,1.00);'') []]"

definition closed_then_open :: node where
  "closed_then_open =
     listing
       [name_div (ustr ''Le Bistrot''),
        status_span (ustr ''color: rgba(220,54,46,1.00);'') [NavigableString (ustr ''Ferm'' @ [233])],
        status_span (ustr ''color: rgba(25,134,57,1.00);'') [NavigableString (ustr ''Ouvert'')]]"

definition address_text :: "ustring \<Rightarrow> bool" where
  \<comment> \<open>a text the source takes an address from: a keyword and a middle dot\<close>
  "address_text text \<longleftrightarrow> has_address_keyword text \<and> 183 \<in> set text"

definition address_candidate :: "ustring \<Rightarrow> ustring option" where
  \<comment> \<open>the part of an info text that the source stores, if any\<close>
  "address_candidate text =
     (if address_text text then first_address_part (split_on 183 text) else None)"

definition address_texts :: "node \<Rightarrow> ustring list" where
  \<comment> \<open>the texts of the info elements of a container that have a keyword and a
      middle dot\<close>
  "address_texts container = filter address_text (map get_text (find_all info_pred container))"

definition plain_street :: node where
  "plain_street = listing [name_div (ustr ''Le Bistrot''), info_div (ustr ''12 Rue de la Paix'')]"

section \<open>Dictionaries under construction\<close>

lemma keys_setdefault: "fst ` set (setdefault k v b) = insert k (fst ` set b)"
proof (cases "map_of b k")
  case None
  then show ?thesis by (simp add: setdefault_def)
next
  case (Some w)
  then have "(k, w) \<in> set b" by (rule map_of_SomeD)
  then have "k \<in> fst ` set b" by force
  with Some show ?thesis by (auto simp: setdefault_def)
qed

lemma distinct_setdefault: "distinct (map fst b) \<Longrightarrow> distinct (map fst (setdefault k v b))"
  by (auto simp: setdefault_def map_of_eq_None_iff split: option.splits)

lemma map_of_setdefault:
  "map_of (setdefault k v b) k' = (if k' = k \<and> map_of b k = None then Some v else map_of b k')"
  by (auto simp: setdefault_def map_add_def split: option.splits)

lemma keys_update: "fst ` set (AList.update k v b) = insert k (fst ` set b)"
  by (simp add: dom_update)

lemma map_of_update: "map_of (AList.update k v b) k' = (if k' = k then Some v else map_of b k')"
  by (simp add: update_conv')

lemma named_update:
  "named name b \<Longrightarrow> k \<in> field_names \<Longrightarrow> k \<noteq> ''nom'' \<Longrightarrow> named name (AList.update k v b)"
  unfolding named_def by (simp add: keys_update map_of_update distinct_update)

lemma keys_add_defaults:
  "fst ` set (add_defaults self b) = fst ` set b \<union> (field_names - {''nom''})"
  by (auto simp: add_defaults_def keys_setdefault keys_update field_names_def)

lemma distinct_add_defaults:
  "distinct (map fst b) \<Longrightarrow> distinct (map fst (add_defaults self b))"
  by (simp add: add_defaults_def distinct_setdefault distinct_update)

lemma nom_add_defaults: "map_of (add_defaults self b) ''nom'' = map_of b ''nom''"
  by (simp add: add_defaults_def map_of_setdefault map_of_update)

lemma named_extract_rating: "named name b \<Longrightarrow> named name (extract_rating rc b)"
  by (simp add: extract_rating_def Let_def named_update field_names_def split: option.splits)

lemma named_address_step: "named name b \<Longrightarrow> named name (address_step b d)"
  by (simp add: address_step_def Let_def named_update field_names_def split: option.splits)

lemma named_status_step: "named name b \<Longrightarrow> named name (status_step b d)"
  by (simp add: status_step_def Let_def named_update field_names_def split: option.splits)

lemma named_foldl:
  assumes step: "\<And>b d. named name b \<Longrightarrow> named name (f b d)"
  shows "named name b \<Longrightarrow> named name (foldl f b ds)"
  by (induction ds arbitrary: b) (simp_all add: step)

lemma named_extract_fields: "named (get_text ne) (extract_fields ne c)"
proof -
  have "named (get_text ne) [(''nom'', PyStr (get_text ne))]"
    by (simp add: named_def field_names_def)
  then have "named (get_text ne) (rating_stage c [(''nom'', PyStr (get_text ne))])"
    by (simp add: rating_stage_def named_extract_rating split: option.splits)
  then have "named (get_text ne) (address_stage c (rating_stage c [(''nom'', PyStr (get_text ne))]))"
    unfolding address_stage_def
    using named_foldl [of "get_text ne" address_step, OF named_address_step] by simp
  then have "named (get_text ne)
      (phone_stage c (address_stage c (rating_stage c [(''nom'', PyStr (get_text ne))])))"
    by (simp add: phone_stage_def named_update field_names_def split: option.splits)
  then have "named (get_text ne)
      (website_stage c
        (phone_stage c (address_stage c (rating_stage c [(''nom'', PyStr (get_text ne))]))))"
    by (simp add: website_stage_def named_update field_names_def split: option.splits)
  then show ?thesis
    unfolding extract_fields_def status_stage_def
    using named_foldl [of "get_text ne" status_step, OF named_status_step] by simp
qed

section \<open>The fields of a record\<close>

text \<open>
  C1. A record that extraction returns has exactly the nine keys, each once, and its
  name is a non-empty string; a container without name element, or whose name element
  has no text, gives no record.
\<close>

theorem record_has_nine_fields_and_name:
  "(extract_single_business self container = Some b \<longrightarrow>
      fst ` set b = field_names \<and> distinct (map fst b) \<and>
      (\<exists>name. map_of b ''nom'' = Some (PyStr name) \<and> name \<noteq> [])) \<and>
   (find_first name_pred container = None \<longrightarrow> extract_single_business self container = None) \<and>
   (find_first name_pred container = Some name_element \<and> get_text name_element = [] \<longrightarrow>
      extract_single_business self container = None)"
proof (intro conjI impI)
  assume r: "extract_single_business self container = Some b"
  then obtain ne where ne: "find_first name_pred container = Some ne"
    by (auto simp: extract_single_business_def split: option.splits)
  let ?f = "extract_fields ne container"
  have n: "named (get_text ne) ?f" by (rule named_extract_fields)
  from r ne have t: "truthy (map_of ?f ''nom'')" and b: "b = add_defaults self ?f"
    by (auto simp: extract_single_business_def Let_def split: if_splits)
  from n have k: "fst ` set ?f \<subseteq> field_names" "distinct (map fst ?f)"
    "map_of ?f ''nom'' = Some (PyStr (get_text ne))" "''nom'' \<in> fst ` set ?f"
    unfolding named_def by (auto simp: rev_image_eqI dest!: map_of_SomeD)
  show "fst ` set b = field_names"
    unfolding b keys_add_defaults using k(1,4) by blast
  show "distinct (map fst b)"
    unfolding b using k(2) by (rule distinct_add_defaults)
  show "\<exists>name. map_of b ''nom'' = Some (PyStr name) \<and> name \<noteq> []"
    unfolding b nom_add_defaults using t k(3) by (simp add: truthy_def)
next
  assume "find_first name_pred container = None"
  then show "extract_single_business self container = None"
    by (simp add: extract_single_business_def)
next
  assume a: "find_first name_pred container = Some name_element \<and> get_text name_element = []"
  have "named (get_text name_element) (extract_fields name_element container)"
    by (rule named_extract_fields)
  with a have "map_of (extract_fields name_element container) ''nom'' = Some (PyStr [])"
    by (simp add: named_def)
  with a show "extract_single_business self container = None"
    by (simp add: extract_single_business_def Let_def truthy_def)
qed

theorem record_has_nine_fields_and_name_witness:
  "extract_single_business plain chez_paul = Some (chez_paul_record non_specifie) \<and>
   fst ` set (chez_paul_record non_specifie) = field_names \<and>
   distinct (map fst (chez_paul_record non_specifie)) \<and>
   (\<exists>name. map_of (chez_paul_record non_specifie) ''nom'' = Some (PyStr name) \<and> name \<noteq> []) \<and>
   find_first name_pred nameless = None \<and>
   extract_single_business plain nameless = None \<and>
   find_first name_pred empty_name = Some (name_div (ustr ''  '')) \<and>
   get_text (name_div (ustr ''  '')) = [] \<and>
   extract_single_business plain empty_name = None"
proof -
  have h1: "extract_single_business plain chez_paul = Some (chez_paul_record non_specifie)"
    by code_simp
  have h2: "find_first name_pred nameless = None"
    by code_simp
  have h3: "find_first name_pred empty_name = Some (name_div (ustr ''  ''))"
    by code_simp
  have h4: "get_text (name_div (ustr ''  '')) = []"
    by code_simp
  from h1 record_has_nine_fields_and_name [of plain chez_paul "chez_paul_record non_specifie"]
  have a: "fst ` set (chez_paul_record non_specifie) = field_names \<and>
      distinct (map fst (chez_paul_record non_specifie)) \<and>
      (\<exists>name. map_of (chez_paul_record non_specifie) ''nom'' = Some (PyStr name) \<and> name \<noteq> [])"
    by blast
  from h2 record_has_nine_fields_and_name [of plain nameless]
  have b: "extract_single_business plain nameless = None"
    by blast
  from h3 h4 record_has_nine_fields_and_name [of plain empty_name _ "name_div (ustr ''  '')"]
  have c: "extract_single_business plain empty_name = None"
    by blast
  from h1 h2 h3 h4 a b c show ?thesis by blast
qed

section \<open>Counting the containers\<close>

lemma foldl_container_step:
  "foldl (container_step self) st cs =
     st\<lparr>businesses := businesses st @ List.map_filter (produced self) cs,
        successful_extractions :=
          successful_extractions st + length (List.map_filter (produced self) cs),
        failed_extractions :=
          failed_extractions st + length (filter (\<lambda>c. produced self c = None) cs),
        extraction_errors :=
          extraction_errors st @
          replicate (length (filter (\<lambda>c. produced self c = None) cs)) incomplete_message\<rparr>"
proof (induction cs arbitrary: st)
  case Nil
  then show ?case by (simp add: List.map_filter_simps)
next
  case (Cons c cs)
  show ?case
  proof (cases "produced self c")
    case None
    then have "container_step self st c =
        st\<lparr>failed_extractions := failed_extractions st + 1,
           extraction_errors := extraction_errors st @ [incomplete_message]\<rparr>"
      by (auto simp: container_step_def produced_def split: option.splits if_splits)
    with None show ?thesis
      by (simp add: Cons.IH List.map_filter_simps replicate_app_Cons_same)
  next
    case (Some b)
    then have "container_step self st c =
        st\<lparr>businesses := businesses st @ [b],
           successful_extractions := successful_extractions st + 1\<rparr>"
      by (auto simp: container_step_def produced_def split: option.splits if_splits)
    with Some show ?thesis
      by (simp add: Cons.IH List.map_filter_simps)
  qed
qed

lemma extract_all_conv:
  "extract_all self cs =
     \<lparr>businesses = List.map_filter (produced self) cs,
      successful_extractions = length (List.map_filter (produced self) cs),
      failed_extractions = length (filter (\<lambda>c. produced self c = None) cs),
      extraction_errors =
        replicate (length (filter (\<lambda>c. produced self c = None) cs)) incomplete_message\<rparr>"
  by (simp add: extract_all_def foldl_container_step)

lemma map_filter_append: "List.map_filter f (xs @ ys) = List.map_filter f xs @ List.map_filter f ys"
  by (simp add: List.map_filter_def)

lemma length_map_filter_plus:
  "length (List.map_filter f cs) + length (filter (\<lambda>c. f c = None) cs) = length cs"
  by (induction cs) (auto simp: List.map_filter_simps split: option.splits)

text \<open>
  C2. In every document, a container without name element gives no record and adds
  exactly one to the count of failures (and one reason to the list); the containers
  before and after it are processed as if it were not there, and every container is
  counted once, as a success or as a failure.
\<close>

theorem missing_name_is_one_failure:
  assumes doc: "business_containers soup = pre @ c # post"
    and miss: "find_first name_pred c = None"
  shows "extract_single_business self c = None \<and>
     container_step self st c =
       st\<lparr>failed_extractions := failed_extractions st + 1,
          extraction_errors := extraction_errors st @ [incomplete_message]\<rparr> \<and>
     businesses (extract_all self (business_containers soup)) =
       businesses (extract_all self (pre @ post)) \<and>
     successful_extractions (extract_all self (business_containers soup)) =
       successful_extractions (extract_all self (pre @ post)) \<and>
     failed_extractions (extract_all self (business_containers soup)) =
       failed_extractions (extract_all self (pre @ post)) + 1 \<and>
     successful_extractions (extract_all self (business_containers soup)) +
       failed_extractions (extract_all self (business_containers soup)) =
       length (business_containers soup)"
proof -
  from miss have n: "extract_single_business self c = None"
    by (simp add: extract_single_business_def)
  then have p: "produced self c = None"
    by (simp add: produced_def)
  from n have s: "container_step self st c =
       st\<lparr>failed_extractions := failed_extractions st + 1,
          extraction_errors := extraction_errors st @ [incomplete_message]\<rparr>"
    by (simp add: container_step_def)
  have t: "successful_extractions (extract_all self (business_containers soup)) +
       failed_extractions (extract_all self (business_containers soup)) =
       length (business_containers soup)"
    by (simp add: extract_all_conv length_map_filter_plus)
  from p have u: "List.map_filter (produced self) (pre @ c # post) =
      List.map_filter (produced self) (pre @ post)"
    by (simp add: map_filter_append List.map_filter_simps)
  from p have v: "length (filter (\<lambda>c. produced self c = None) (pre @ c # post)) =
      length (filter (\<lambda>c. produced self c = None) (pre @ post)) + 1"
    by simp
  show ?thesis
    using n s t u v unfolding doc extract_all_conv by simp
qed

theorem missing_name_is_one_failure_witness:
  "business_containers (results_page [chez_paul, nameless, bistrot]) =
     [chez_paul] @ nameless # [bistrot] \<and>
   find_first name_pred nameless = None \<and>
   extract_single_business plain nameless = None \<and>
   container_step plain (extract_all plain [chez_paul]) nameless =
     (extract_all plain [chez_paul])
       \<lparr>failed_extractions := failed_extractions (extract_all plain [chez_paul]) + 1,
        extraction_errors := extraction_errors (extract_all plain [chez_paul]) @ [incomplete_message]\<rparr> \<and>
   businesses (extract_all plain (business_containers (results_page [chez_paul, nameless, bistrot]))) =
     businesses (extract_all plain ([chez_paul] @ [bistrot])) \<and>
   successful_extractions
       (extract_all plain (business_containers (results_page [chez_paul, nameless, bistrot]))) =
     successful_extractions (extract_all plain ([chez_paul] @ [bistrot])) \<and>
   failed_extractions
       (extract_all plain (business_containers (results_page [chez_paul, nameless, bistrot]))) =
     failed_extractions (extract_all plain ([chez_paul] @ [bistrot])) + 1 \<and>
   successful_extractions
       (extract_all plain (business_containers (results_page [chez_paul, nameless, bistrot]))) +
     failed_extractions
       (extract_all plain (business_containers (results_page [chez_paul, nameless, bistrot]))) =
     length (business_containers (results_page [chez_paul, nameless, bistrot]))"
proof -
  have h1: "business_containers (results_page [chez_paul, nameless, bistrot]) =
      [chez_paul] @ nameless # [bistrot]"
    by code_simp
  have h2: "find_first name_pred nameless = None"
    by code_simp
  from h1 h2 missing_name_is_one_failure [OF h1 h2, of plain "extract_all plain [chez_paul]"]
  show ?thesis
    by blast
qed

text \<open>
  C6. When the parser raises on the markup, \<open>extract_businesses_from_html\<close> returns
  the empty list and \<open>process_html_file\<close> returns the statistics with all counts zero;
  both return a value, nothing is raised.
\<close>

theorem unparseable_document_gives_empty_report:
  assumes "parse html_content = Inl e"
  shows "extract_businesses_from_html self parse html_content = [] \<and>
     (read_file html_file_path = Inr html_content \<longrightarrow>
        snd (process_html_file self read_file parse check_if_company_exists send_to_notion
               html_file_path city business_type) =
          \<lparr>total = 0, success = 0, errors = 0, duplicates = None, error_details = None\<rparr>)"
  using assms by (simp add: extract_businesses_from_html_def process_html_file_def Let_def)

theorem unparseable_document_gives_empty_report_witness:
  "(\<lambda>h. Inl ParserError :: py_error + node) (ustr ''<div'') = Inl ParserError \<and>
   extract_businesses_from_html plain (\<lambda>h. Inl ParserError) (ustr ''<div'') = [] \<and>
   (\<lambda>p. Inr (ustr ''<div'') :: py_error + ustring) (ustr ''page.html'') = Inr (ustr ''<div'') \<and>
   snd (process_html_file plain (\<lambda>p. Inr (ustr ''<div'')) (\<lambda>h. Inl ParserError)
          (\<lambda>n. False) (\<lambda>b. True) (ustr ''page.html'') None None) =
     \<lparr>total = 0, success = 0, errors = 0, duplicates = None, error_details = None\<rparr>"
  using unparseable_document_gives_empty_report
    [of "\<lambda>h. Inl ParserError" "ustr ''<div''" ParserError plain "\<lambda>p. Inr (ustr ''<div'')"
        "ustr ''page.html''" "\<lambda>n. False" "\<lambda>b. True" None None]
  by simp

section \<open>The city\<close>



text \<open>
  C3, as stated, fails: with the fixed city \<open>Nantes\<close> set on the extractor, the
  record that the batch produces for a listing in Paris has the city \<open>Paris\<close>.
\<close>

theorem fixed_city_counterexample:
  "default_city nantes = Some (ustr ''Nantes'') \<and>
   extract_businesses_from_html nantes (\<lambda>h. Inr (results_page [chez_paul])) [] =
     [chez_paul_record (ustr ''Restaurant'')] \<and>
   map_of (chez_paul_record (ustr ''Restaurant'')) ''ville'' = Some (PyStr (ustr ''Paris'')) \<and>
   ustr ''Paris'' \<noteq> ustr ''Nantes''"
  by code_simp

text \<open>
  C3, amended. Extraction does not look at the fixed city: the record keeps the city
  inferred from the address. The fixed city, when it is a non-empty string, is what
  \<open>_get_or_create_ville_option\<close> returns for the property \<open>Ville\<close> sent to the remote
  service, stripped of surrounding whitespace, whatever the city of the record.
\<close>

theorem fixed_city_replaces_city_on_delivery:
  assumes "default_city self = Some d" and "d \<noteq> []"
  shows "get_or_create_ville_option self ville = strip d \<and>
     notion_ville self business_data = strip d \<and>
     extract_single_business self container =
       extract_single_business (self\<lparr>default_city := None\<rparr>) container"
  using assms
  by (simp add: get_or_create_ville_option_def notion_ville_def extract_single_business_def
      add_defaults_def Let_def split: option.splits)

theorem fixed_city_replaces_city_on_delivery_witness:
  "default_city nantes = Some (ustr ''Nantes'') \<and> ustr ''Nantes'' \<noteq> [] \<and>
   get_or_create_ville_option nantes (ustr ''Paris'') = strip (ustr ''Nantes'') \<and>
   notion_ville nantes (chez_paul_record (ustr ''Restaurant'')) = strip (ustr ''Nantes'') \<and>
   strip (ustr ''Nantes'') = ustr ''Nantes'' \<and>
   extract_single_business nantes chez_paul =
     extract_single_business (nantes\<lparr>default_city := None\<rparr>) chez_paul"
proof -
  have h1: "default_city nantes = Some (ustr ''Nantes'')" by (simp add: nantes_def)
  have h2: "ustr ''Nantes'' \<noteq> []" by (simp add: ustr_def)
  have h3: "strip (ustr ''Nantes'') = ustr ''Nantes''" by code_simp
  from fixed_city_replaces_city_on_delivery [OF h1 h2] h1 h2 h3 show ?thesis
    by simp
qed

section \<open>The rating\<close>

lemma map_of_foldl_other:
  assumes "\<And>b d. map_of (f b d) k = map_of b k"
  shows "map_of (foldl f b ds) k = map_of b k"
  by (induction ds arbitrary: b) (simp_all add: assms)

lemma rating_stage_other:
  "k \<noteq> ''note'' \<Longrightarrow> k \<noteq> ''nombre_avis'' \<Longrightarrow> map_of (rating_stage c b) k = map_of b k"
  by (simp add: rating_stage_def extract_rating_def Let_def map_of_update split: option.splits)

lemma address_step_other:
  "k \<noteq> ''adresse'' \<Longrightarrow> k \<noteq> ''ville'' \<Longrightarrow> map_of (address_step b d) k = map_of b k"
  by (simp add: address_step_def Let_def map_of_update split: option.splits)

lemma address_stage_other:
  "k \<noteq> ''adresse'' \<Longrightarrow> k \<noteq> ''ville'' \<Longrightarrow> map_of (address_stage c b) k = map_of b k"
  unfolding address_stage_def by (rule map_of_foldl_other) (rule address_step_other)

lemma phone_stage_other: "k \<noteq> ''telephone'' \<Longrightarrow> map_of (phone_stage c b) k = map_of b k"
  by (simp add: phone_stage_def map_of_update split: option.splits)

lemma website_stage_other: "k \<noteq> ''site_web'' \<Longrightarrow> map_of (website_stage c b) k = map_of b k"
  by (simp add: website_stage_def map_of_update split: option.splits)

lemma status_step_other:
  "k \<noteq> ''statut_ouverture'' \<Longrightarrow> map_of (status_step b d) k = map_of b k"
  by (simp add: status_step_def Let_def map_of_update)

lemma status_stage_other:
  "k \<noteq> ''statut_ouverture'' \<Longrightarrow> map_of (status_stage c b) k = map_of b k"
  unfolding status_stage_def by (rule map_of_foldl_other) (rule status_step_other)

lemma extract_single_business_Some:
  "extract_single_business self c = Some b \<longleftrightarrow>
     (\<exists>ne. find_first name_pred c = Some ne \<and> get_text ne \<noteq> [] \<and>
           b = add_defaults self (extract_fields ne c))"
proof -
  have "\<And>ne. truthy (map_of (extract_fields ne c) ''nom'') \<longleftrightarrow> get_text ne \<noteq> []"
    using named_extract_fields by (simp add: named_def truthy_def)
  then show ?thesis
    by (auto simp: extract_single_business_def Let_def split: option.splits)
qed

lemma note_extract_fields:
  "map_of (extract_fields ne c) ''note'' =
     (case find_first rating_container_pred c of
        None \<Rightarrow> None
      | Some rc \<Rightarrow>
          (case find_first (span_with_class (ustr ''MW4etd'')) rc of
             None \<Rightarrow> None
           | Some rt \<Rightarrow>
               (case py_float (replace 44 46 (get_text rt)) of
                  Some f \<Rightarrow> Some (PyFloat f)
                | None \<Rightarrow> Some PyNone)))"
  by (simp add: extract_fields_def status_stage_other website_stage_other phone_stage_other
      address_stage_other rating_stage_def extract_rating_def Let_def map_of_update
      split: option.splits)

lemma note_add_defaults:
  "map_of (add_defaults self b) ''note'' =
     (case map_of b ''note'' of None \<Rightarrow> Some PyNone | Some v \<Rightarrow> Some v)"
  by (simp add: add_defaults_def map_of_setdefault map_of_update split: option.splits)

lemma note_field:
  "extract_single_business self c = Some b \<Longrightarrow> map_of b ''note'' = Some (note_of c)"
  by (auto simp: extract_single_business_Some note_add_defaults note_extract_fields note_of_def
      split: option.splits)



text \<open>
  C8, as stated, fails: the rating text \<open>9,5\<close> gives the rating 9.5, which is not
  between 0 and 5.
\<close>

theorem rating_range_counterexample:
  "extract_single_business plain high_rating =
     Some (bare_record (ustr ''Le Bistrot'') (PyFloat (Finite (19 / 2))) 7) \<and>
   map_of (bare_record (ustr ''Le Bistrot'') (PyFloat (Finite (19 / 2))) 7) ''note'' =
     Some (PyFloat (Finite (19 / 2))) \<and>
   \<not> rating_in_range (PyFloat (Finite (19 / 2)))"
  by code_simp

text \<open>
  C8, amended. The rating of a record is either absent or the float that the text of
  the rating element parses to after the replacement of the comma; no range is
  enforced.
\<close>

theorem rating_is_absent_or_parsed_float:
  assumes "extract_single_business self c = Some b"
  shows "map_of b ''note'' = Some PyNone \<or>
     (\<exists>rc rt f. find_first rating_container_pred c = Some rc \<and>
        find_first (span_with_class (ustr ''MW4etd'')) rc = Some rt \<and>
        py_float (replace 44 46 (get_text rt)) = Some f \<and>
        map_of b ''note'' = Some (PyFloat f))"
  using note_field [OF assms] by (auto simp: note_of_def split: option.splits)

theorem rating_is_absent_or_parsed_float_witness:
  "extract_single_business plain high_rating =
     Some (bare_record (ustr ''Le Bistrot'') (PyFloat (Finite (19 / 2))) 7) \<and>
   (map_of (bare_record (ustr ''Le Bistrot'') (PyFloat (Finite (19 / 2))) 7) ''note'' = Some PyNone \<or>
    (\<exists>rc rt f. find_first rating_container_pred high_rating = Some rc \<and>
       find_first (span_with_class (ustr ''MW4etd'')) rc = Some rt \<and>
       py_float (replace 44 46 (get_text rt)) = Some f \<and>
       map_of (bare_record (ustr ''Le Bistrot'') (PyFloat (Finite (19 / 2))) 7) ''note'' =
         Some (PyFloat f)))"
proof -
  have h: "extract_single_business plain high_rating =
      Some (bare_record (ustr ''Le Bistrot'') (PyFloat (Finite (19 / 2))) 7)"
    by code_simp
  from h rating_is_absent_or_parsed_float [OF h] show ?thesis by blast
qed

section \<open>The opening status\<close>

lemma status_step_conv:
  "status_step b e =
     (if status_match e then AList.update ''statut_ouverture'' (PyStr (get_text e)) b else b)"
  by (auto simp: status_step_def status_match_def status_colour_def Let_def)

lemma status_foldl:
  "map_of (foldl status_step b es) ''statut_ouverture'' =
     (if filter status_match es = [] then map_of b ''statut_ouverture''
      else Some (PyStr (get_text (last (filter status_match es)))))"
  by (induction es rule: rev_induct) (simp_all add: status_step_conv map_of_update)

lemma status_extract_fields:
  "map_of (extract_fields ne c) ''statut_ouverture'' =
     (if filter status_match (find_all styled_span_pred c) = [] then None
      else Some (PyStr (get_text (last (filter status_match (find_all styled_span_pred c))))))"
  by (simp add: extract_fields_def status_stage_def status_foldl website_stage_other
      phone_stage_other address_stage_other rating_stage_other)

lemma status_add_defaults:
  "map_of (add_defaults self b) ''statut_ouverture'' =
     (case map_of b ''statut_ouverture'' of None \<Rightarrow> Some (PyStr non_specifie) | Some v \<Rightarrow> Some v)"
  by (simp add: add_defaults_def map_of_setdefault map_of_update split: option.splits)

lemma last_filter_conj:
  "filter P xs \<noteq> [] \<Longrightarrow> Q (last (filter P xs)) \<Longrightarrow>
   filter (\<lambda>x. P x \<and> Q x) xs \<noteq> [] \<and> last (filter (\<lambda>x. P x \<and> Q x) xs) = last (filter P xs)"
  by (induction xs rule: rev_induct) (auto split: if_splits)

text \<open>
  C9, as stated, fails: when the last span in one of the three colours has no text,
  the status is not its (empty) text but the text of an earlier span.
\<close>

theorem status_counterexample:
  "map_option (\<lambda>b. map_of b ''statut_ouverture'') (extract_single_business plain closed_then_blank) =
     Some (Some (PyStr (ustr ''Ferm'' @ [233]))) \<and>
   filter status_colour (find_all styled_span_pred closed_then_blank) =
     [status_span (ustr ''color: rgba(220,54,46,1.00);'') [NavigableString (ustr ''Ferm'' @ [233])],
      status_span (ustr ''color: rgba(25,134,57,1.00);'') []] \<and>
   get_text (status_span (ustr ''color: rgba(25,134,57,1.00);'') []) = [] \<and>
   ustr ''Ferm'' @ [233] \<noteq> []"
  by code_simp

text \<open>
  C9, amended. The status of a record is the text of the last styled span, in document
  order, that names one of the three colours and has a non-empty text, and the
  placeholder when there is none; in particular it is the text of the last span in one
  of the three colours whenever that text is not empty.
\<close>

theorem status_is_last_match_with_text:
  assumes "extract_single_business self c = Some b"
  shows "map_of b ''statut_ouverture'' =
       Some (PyStr (if filter status_match (find_all styled_span_pred c) = [] then non_specifie
                    else get_text (last (filter status_match (find_all styled_span_pred c))))) \<and>
     (filter status_colour (find_all styled_span_pred c) \<noteq> [] \<and>
      get_text (last (filter status_colour (find_all styled_span_pred c))) \<noteq> [] \<longrightarrow>
      map_of b ''statut_ouverture'' =
        Some (PyStr (get_text (last (filter status_colour (find_all styled_span_pred c))))))"
proof -
  from assms obtain ne where b: "b = add_defaults self (extract_fields ne c)"
    by (auto simp: extract_single_business_Some)
  have 1: "map_of b ''statut_ouverture'' =
       Some (PyStr (if filter status_match (find_all styled_span_pred c) = [] then non_specifie
                    else get_text (last (filter status_match (find_all styled_span_pred c)))))"
    unfolding b by (simp add: status_add_defaults status_extract_fields)
  have 2: "map_of b ''statut_ouverture'' =
        Some (PyStr (get_text (last (filter status_colour (find_all styled_span_pred c)))))"
    if "filter status_colour (find_all styled_span_pred c) \<noteq> []"
      and "get_text (last (filter status_colour (find_all styled_span_pred c))) \<noteq> []"
    using last_filter_conj [of status_colour "find_all styled_span_pred c" "\<lambda>e. get_text e \<noteq> []"] that 1
    by (simp add: status_match_def [abs_def])
  from 1 2 show ?thesis by blast
qed

theorem status_is_last_match_with_text_witness:
  "extract_single_business plain closed_then_open =
     Some (status_only_record (ustr ''Le Bistrot'') (ustr ''Ouvert'')) \<and>
   filter status_colour (find_all styled_span_pred closed_then_open) \<noteq> [] \<and>
   get_text (last (filter status_colour (find_all styled_span_pred closed_then_open))) \<noteq> [] \<and>
   map_of (status_only_record (ustr ''Le Bistrot'') (ustr ''Ouvert'')) ''statut_ouverture'' =
     Some (PyStr (get_text (last (filter status_colour (find_all styled_span_pred closed_then_open)))))"
proof -
  have h1: "extract_single_business plain closed_then_open =
      Some (status_only_record (ustr ''Le Bistrot'') (ustr ''Ouvert''))"
    by code_simp
  have h2: "filter status_colour (find_all styled_span_pred closed_then_open) \<noteq> []"
    by code_simp
  have h3: "get_text (last (filter status_colour (find_all styled_span_pred closed_then_open))) \<noteq> []"
    by code_simp
  from h1 h2 h3 status_is_last_match_with_text [OF h1] show ?thesis by blast
qed

section \<open>The order of the city rules\<close>




section \<open>The address\<close>

lemma startswith_prefix: "startswith s p \<longleftrightarrow> prefix p s"
  by (induction s p rule: startswith.induct) auto

lemma contains_sublist: "contains k s \<longleftrightarrow> sublist k s"
  by (induction s) (simp_all add: startswith_prefix sublist_Cons_right)

lemma lower_append: "lower (xs @ ys) = lower xs @ lower ys"
  by (simp add: lower_def)

lemma lower_Cons: "lower (c # cs) = lower_cp c @ lower cs"
  by (simp add: lower_def)

lemma lower_cp_space:
  assumes "isspace c"
  shows "lower_cp c = [c]"
proof -
  from assms have "c \<le> 32 \<or> c = 133 \<or> c = 160 \<or> 5760 \<le> c"
    unfolding isspace_def by linarith
  then show ?thesis
    unfolding lower_cp_def by (elim disjE) simp_all
qed

lemma sublist_skip_head:
  assumes "d \<notin> set k" and "k \<noteq> []" and "sublist k (d # ys)"
  shows "sublist k ys"
proof -
  from assms(3) have "prefix k (d # ys) \<or> sublist k ys"
    by (simp add: sublist_Cons_right)
  moreover have "\<not> prefix k (d # ys)"
    using assms(1,2) by (cases k) auto
  ultimately show ?thesis by blast
qed

lemma sublist_around:
  assumes "d \<notin> set k" and "k \<noteq> []" and "sublist k (xs @ d # ys)"
  shows "sublist k xs \<or> sublist k ys"
proof -
  from assms(3) have "sublist k xs \<or> sublist k (d # ys) \<or>
      (\<exists>k1 k2. k = k1 @ k2 \<and> suffix k1 xs \<and> prefix k2 (d # ys))"
    by (simp only: sublist_append)
  then consider "sublist k xs" | "sublist k (d # ys)"
    | k1 k2 where "k = k1 @ k2" "suffix k1 xs" "prefix k2 (d # ys)"
    by blast
  then show ?thesis
  proof cases
    case 1
    then show ?thesis by blast
  next
    case 2
    with assms(1,2) show ?thesis by (blast intro: sublist_skip_head)
  next
    case 3
    show ?thesis
    proof (cases k2)
      case Nil
      with 3 have "suffix k xs" by simp
      then show ?thesis by (blast intro: suffix_imp_sublist)
    next
      case (Cons a k3)
      with 3(3) have "a = d" by simp
      with Cons 3(1) assms(1) show ?thesis by simp
    qed
  qed
qed

lemma split_on_unfold:
  "split_on sep s =
     takeWhile (\<lambda>c. c \<noteq> sep) s #
     (case dropWhile (\<lambda>c. c \<noteq> sep) s of [] \<Rightarrow> [] | x # r \<Rightarrow> split_on sep r)"
  by (induction s) (auto split: list.splits)

lemma middle_dot_split:
  assumes "dropWhile (\<lambda>c. c \<noteq> sep) s = x # r"
  shows "s = takeWhile (\<lambda>c. c \<noteq> sep) s @ sep # r"
proof -
  from assms have "x = hd (dropWhile (\<lambda>c. c \<noteq> sep) s)" by simp
  moreover from assms have "dropWhile (\<lambda>c. c \<noteq> sep) s \<noteq> []" by simp
  ultimately have "x = sep" using hd_dropWhile [of "\<lambda>c. c \<noteq> sep" s] by simp
  with assms have "takeWhile (\<lambda>c. c \<noteq> sep) s @ sep # r =
      takeWhile (\<lambda>c. c \<noteq> sep) s @ dropWhile (\<lambda>c. c \<noteq> sep) s"
    by simp
  then show ?thesis by simp
qed

lemma keyword_in_some_part:
  assumes "183 \<notin> set k" and "k \<noteq> []"
  shows "sublist k (lower s) \<Longrightarrow> \<exists>p\<in>set (split_on 183 s). sublist k (lower p)"
proof (induction s rule: length_induct)
  case (1 s)
  let ?p = "takeWhile (\<lambda>c. c \<noteq> 183) s" and ?r = "dropWhile (\<lambda>c. c \<noteq> 183) s"
  show ?case
  proof (cases ?r)
    case Nil
    then have ps: "takeWhile (\<lambda>c. c \<noteq> 183) s = s"
      by simp
    have sp: "split_on 183 s = [s]"
      by (subst split_on_unfold, subst Nil, subst ps) simp
    from 1(2) show ?thesis
      by (simp add: sp)
  next
    case (Cons x r)
    have t: "s = ?p @ 183 # r"
      using Cons by (rule middle_dot_split)
    have u: "split_on 183 s = ?p # split_on 183 r"
      using Cons by (subst split_on_unfold) simp
    have l: "lower_cp 183 = [183]" by (simp add: lower_cp_def)
    have "lower s = lower ?p @ 183 # lower r"
      by (subst t) (simp add: lower_append lower_Cons l)
    with 1(2) have "sublist k (lower ?p @ 183 # lower r)" by simp
    then consider "sublist k (lower ?p)" | "sublist k (lower r)"
      using sublist_around [OF assms] by blast
    then show ?thesis
    proof cases
      case 1
      then show ?thesis by (simp add: u)
    next
      case 2
      have "length s = length ?p + 1 + length r" by (subst t) simp
      then have "length r < length s" by simp
      with 1(1) 2 have "\<exists>p\<in>set (split_on 183 r). sublist k (lower p)" by blast
      then show ?thesis by (auto simp: u)
    qed
  qed
qed

lemma keyword_lstrip:
  assumes "\<forall>c\<in>set k. \<not> isspace c" and "k \<noteq> []"
  shows "sublist k (lower s) \<Longrightarrow> sublist k (lower (dropWhile isspace s))"
proof (induction s)
  case Nil
  then show ?case by simp
next
  case (Cons c cs)
  show ?case
  proof (cases "isspace c")
    case True
    with assms(1) have "c \<notin> set k" by blast
    with Cons.prems True assms(2) have "sublist k (lower cs)"
      by (auto simp: lower_Cons lower_cp_space intro: sublist_skip_head)
    with Cons.IH True show ?thesis by simp
  next
    case False
    with Cons.prems show ?thesis by simp
  qed
qed

lemma keyword_rstrip:
  assumes "\<forall>c\<in>set k. \<not> isspace c" and "k \<noteq> []"
  shows "sublist k (lower s) \<Longrightarrow> sublist k (lower (rev (dropWhile isspace (rev s))))"
proof (induction s rule: rev_induct)
  case Nil
  then show ?case by simp
next
  case (snoc c cs)
  show ?case
  proof (cases "isspace c")
    case True
    with assms(1) have c: "c \<notin> set k" by blast
    from snoc.prems True have "sublist k (lower cs @ c # [])"
      by (simp add: lower_append lower_Cons lower_cp_space lower_def)
    then have "sublist k (lower cs) \<or> sublist k []"
      by (rule sublist_around [OF c assms(2)])
    with assms(2) have "sublist k (lower cs)"
      by simp
    with snoc.IH True show ?thesis by simp
  next
    case False
    with snoc.prems show ?thesis by simp
  qed
qed

lemma keyword_strip:
  assumes "\<forall>c\<in>set k. \<not> isspace c" and "k \<noteq> []" and "sublist k (lower s)"
  shows "sublist k (lower (strip s))"
proof -
  from keyword_rstrip [OF assms] have "sublist k (lower (rev (dropWhile isspace (rev s))))" .
  from keyword_lstrip [OF assms(1,2) this] show ?thesis
    by (simp add: strip_def)
qed

lemma address_keywords_plain:
  "k \<in> set address_keywords \<Longrightarrow> k \<noteq> [] \<and> 183 \<notin> set k \<and> (\<forall>c\<in>set k. \<not> isspace c)"
proof -
  have "list_all (\<lambda>k. k \<noteq> [] \<and> 183 \<notin> set k \<and> list_all (\<lambda>c. \<not> isspace c) k) address_keywords"
    by code_simp
  then show "k \<in> set address_keywords \<Longrightarrow> k \<noteq> [] \<and> 183 \<notin> set k \<and> (\<forall>c\<in>set k. \<not> isspace c)"
    by (auto simp: list_all_iff)
qed

lemma first_address_part_find:
  "first_address_part parts = List.find has_address_keyword (map strip parts)"
  by (induction parts) simp_all

lemma keyword_text_has_part:
  assumes "has_address_keyword text"
  shows "\<exists>part. first_address_part (split_on 183 text) = Some part"
proof -
  from assms obtain k where k: "k \<in> set address_keywords" "sublist k (lower text)"
    by (auto simp: has_address_keyword_def list_ex_iff contains_sublist)
  from address_keywords_plain [OF k(1)]
  have p: "k \<noteq> []" "183 \<notin> set k" "\<forall>c\<in>set k. \<not> isspace c" by auto
  from keyword_in_some_part [OF p(2,1) k(2)]
  obtain q where q: "q \<in> set (split_on 183 text)" "sublist k (lower q)" by blast
  from keyword_strip [OF p(3,1) q(2)] k(1) have "has_address_keyword (strip q)"
    by (auto simp: has_address_keyword_def list_ex_iff contains_sublist)
  with q(1) have "List.find has_address_keyword (map strip (split_on 183 text)) \<noteq> None"
    by (auto simp: find_None_iff)
  then show ?thesis by (auto simp: first_address_part_find)
qed

lemma address_candidate_Some: "address_text t \<Longrightarrow> \<exists>p. address_candidate t = Some p"
  using keyword_text_has_part by (simp add: address_candidate_def address_text_def)

lemma address_step_conv:
  "address_step b d =
     (case address_candidate (get_text d) of
        None \<Rightarrow> b
      | Some part \<Rightarrow>
          AList.update ''ville'' (PyStr (extract_city_from_address (PyStr part)))
            (AList.update ''adresse'' (PyStr part) b))"
  by (simp add: address_step_def address_candidate_def address_text_def Let_def)

lemma address_foldl:
  "map_of (foldl address_step b ds) ''adresse'' =
     (if List.map_filter (\<lambda>d. address_candidate (get_text d)) ds = [] then map_of b ''adresse''
      else Some (PyStr (last (List.map_filter (\<lambda>d. address_candidate (get_text d)) ds)))) \<and>
   map_of (foldl address_step b ds) ''ville'' =
     (if List.map_filter (\<lambda>d. address_candidate (get_text d)) ds = [] then map_of b ''ville''
      else Some (PyStr (extract_city_from_address
             (PyStr (last (List.map_filter (\<lambda>d. address_candidate (get_text d)) ds))))))"
proof (induction ds rule: rev_induct)
  case Nil
  show ?case by (simp add: List.map_filter_simps)
next
  case (snoc d ds)
  show ?case
  proof (cases "address_candidate (get_text d)")
    case None
    with snoc show ?thesis
      by (simp add: address_step_conv map_filter_append List.map_filter_simps)
  next
    case (Some part)
    then show ?thesis
      by (simp add: address_step_conv map_filter_append List.map_filter_simps map_of_update)
  qed
qed

lemma candidates_of_address_texts:
  "(List.map_filter (\<lambda>d. address_candidate (get_text d)) ds = [] \<longleftrightarrow>
      filter address_text (map get_text ds) = []) \<and>
   (filter address_text (map get_text ds) \<noteq> [] \<longrightarrow>
      address_candidate (last (filter address_text (map get_text ds))) =
        Some (last (List.map_filter (\<lambda>d. address_candidate (get_text d)) ds)))"
proof (induction ds rule: rev_induct)
  case Nil
  show ?case by (simp add: List.map_filter_simps)
next
  case (snoc d ds)
  show ?case
  proof (cases "address_text (get_text d)")
    case True
    then obtain p where "address_candidate (get_text d) = Some p"
      using address_candidate_Some by blast
    with True show ?thesis
      by (simp add: map_filter_append List.map_filter_simps)
  next
    case False
    then have "address_candidate (get_text d) = None"
      by (simp add: address_candidate_def)
    with False snoc show ?thesis
      by (simp add: map_filter_append List.map_filter_simps)
  qed
qed

lemma address_extract_fields:
  "map_of (extract_fields ne c) ''adresse'' =
     (if address_texts c = [] then None
      else map_option PyStr (address_candidate (last (address_texts c)))) \<and>
   map_of (extract_fields ne c) ''ville'' =
     (if address_texts c = [] then None
      else map_option (\<lambda>part. PyStr (extract_city_from_address (PyStr part)))
             (address_candidate (last (address_texts c))))"
  using candidates_of_address_texts [of "find_all info_pred c"]
  by (simp add: extract_fields_def status_stage_other website_stage_other phone_stage_other
      address_stage_def address_foldl rating_stage_other address_texts_def)

lemma address_add_defaults:
  "map_of (add_defaults self b) ''adresse'' =
     (case map_of b ''adresse'' of None \<Rightarrow> Some (PyStr non_specifiee) | Some v \<Rightarrow> Some v) \<and>
   map_of (add_defaults self b) ''ville'' =
     (case map_of b ''ville'' of None \<Rightarrow> Some (PyStr non_specifiee) | Some v \<Rightarrow> Some v)"
  by (simp add: add_defaults_def map_of_setdefault map_of_update split: option.splits)

text \<open>
  C4, as stated, fails: an info text with an address keyword and no middle dot is not
  stored, the address stays the placeholder.
\<close>

theorem address_counterexample:
  "find_all info_pred plain_street = [info_div (ustr ''12 Rue de la Paix'')] \<and>
   get_text (info_div (ustr ''12 Rue de la Paix'')) = ustr ''12 Rue de la Paix'' \<and>
   has_address_keyword (ustr ''12 Rue de la Paix'') \<and>
   map_option (\<lambda>b. map_of b ''adresse'') (extract_single_business plain plain_street) =
     Some (Some (PyStr non_specifiee)) \<and>
   non_specifiee \<noteq> ustr ''12 Rue de la Paix''"
  by code_simp

text \<open>
  C4, amended. Only the info texts that contain both an address keyword (in any case)
  and a middle dot are used: such a text is split at the middle dots and its first
  stripped part with a keyword, which always exists, is stored as the address, and the
  city is inferred from that part; the last such info text of the container decides.
  Without any such text the address and the city are the placeholder.
\<close>

theorem address_needs_keyword_and_middle_dot:
  assumes "extract_single_business self c = Some b"
  shows "(address_texts c = [] \<longrightarrow>
        map_of b ''adresse'' = Some (PyStr non_specifiee) \<and>
        map_of b ''ville'' = Some (PyStr non_specifiee)) \<and>
     (address_texts c \<noteq> [] \<longrightarrow>
        (\<exists>part. List.find has_address_keyword (map strip (split_on 183 (last (address_texts c)))) =
                  Some part \<and>
                map_of b ''adresse'' = Some (PyStr part) \<and>
                map_of b ''ville'' = Some (PyStr (extract_city_from_address (PyStr part)))))"
proof -
  from assms obtain ne where b: "b = add_defaults self (extract_fields ne c)"
    by (auto simp: extract_single_business_Some)
  have none: "map_of b ''adresse'' = Some (PyStr non_specifiee) \<and>
      map_of b ''ville'' = Some (PyStr non_specifiee)"
    if "address_texts c = []"
    using that unfolding b by (simp add: address_add_defaults address_extract_fields)
  have some: "\<exists>part. List.find has_address_keyword
        (map strip (split_on 183 (last (address_texts c)))) = Some part \<and>
      map_of b ''adresse'' = Some (PyStr part) \<and>
      map_of b ''ville'' = Some (PyStr (extract_city_from_address (PyStr part)))"
    if n: "address_texts c \<noteq> []"
  proof -
    from n have "last (address_texts c) \<in> set (address_texts c)" by simp
    then have t: "address_text (last (address_texts c))"
      by (simp add: address_texts_def)
    then obtain part where p: "address_candidate (last (address_texts c)) = Some part"
      using address_candidate_Some by blast
    with t have "List.find has_address_keyword (map strip (split_on 183 (last (address_texts c)))) =
        Some part"
      by (simp add: address_candidate_def first_address_part_find)
    moreover from n p have "map_of b ''adresse'' = Some (PyStr part) \<and>
        map_of b ''ville'' = Some (PyStr (extract_city_from_address (PyStr part)))"
      unfolding b by (simp add: address_add_defaults address_extract_fields)
    ultimately show ?thesis by blast
  qed
  from none some show ?thesis by blast
qed

theorem address_needs_keyword_and_middle_dot_witness:
  "extract_single_business plain chez_paul = Some (chez_paul_record non_specifie) \<and>
   address_texts chez_paul \<noteq> [] \<and>
   (\<exists>part. List.find has_address_keyword (map strip (split_on 183 (last (address_texts chez_paul)))) =
             Some part \<and>
           map_of (chez_paul_record non_specifie) ''adresse'' = Some (PyStr part) \<and>
           map_of (chez_paul_record non_specifie) ''ville'' =
             Some (PyStr (extract_city_from_address (PyStr part)))) \<and>
   extract_single_business plain high_rating =
     Some (bare_record (ustr ''Le Bistrot'') (PyFloat (Finite (19 / 2))) 7) \<and>
   address_texts high_rating = [] \<and>
   map_of (bare_record (ustr ''Le Bistrot'') (PyFloat (Finite (19 / 2))) 7) ''adresse'' =
     Some (PyStr non_specifiee) \<and>
   map_of (bare_record (ustr ''Le Bistrot'') (PyFloat (Finite (19 / 2))) 7) ''ville'' =
     Some (PyStr non_specifiee)"
proof -
  have h1: "extract_single_business plain chez_paul = Some (chez_paul_record non_specifie)"
    by code_simp
  have h2: "address_texts chez_paul \<noteq> []"
    by code_simp
  have h3: "extract_single_business plain high_rating =
      Some (bare_record (ustr ''Le Bistrot'') (PyFloat (Finite (19 / 2))) 7)"
    by code_simp
  have h4: "address_texts high_rating = []"
    by code_simp
  from h1 h2 h3 h4 address_needs_keyword_and_middle_dot [OF h1]
    address_needs_keyword_and_middle_dot [OF h3]
  show ?thesis by blast
qed

end
